theory Spec2Isabelle
  imports Complex_Main
begin

section \<open>Values\<close>

text \<open>
  The scatter graph of \<^verbatim>\<open>ScatterGraph.js\<close> works on JavaScript numbers. A coordinate
  of a data point is a number or absent; the non-finite numbers are kept apart because
  \<^verbatim>\<open>isValidValue\<close> tests for them. Finite numbers are modelled as exact reals where the
  code computes IEEE doubles: the statements below give each range by the expressions
  the code evaluates for its two ends, and say nothing that depends on how the ends
  are rounded, such as the exact difference of the two.
\<close>

datatype jsnum = Undefined | Null | NaN | PosInf | NegInf | Num real

text \<open>A raw data value \<^verbatim>\<open>{x, y, heading}\<close>; a missing key reads as \<^verbatim>\<open>undefined\<close>.\<close>

record point =
  x_coord :: jsnum
  y_coord :: jsnum
  heading :: jsnum

text \<open>
  \<^verbatim>\<open>value !== null && value !== undefined && !isNaN(value) && isFinite(value)\<close>
\<close>

fun isValidValue :: "jsnum \<Rightarrow> bool" where
  "isValidValue Null = False"
| "isValidValue Undefined = False"
| "isValidValue NaN = False"
| "isValidValue PosInf = False"
| "isValidValue NegInf = False"
| "isValidValue (Num r) = True"

text \<open>The number held by a value that passed \<^const>\<open>isValidValue\<close>.\<close>

fun numberOf :: "jsnum \<Rightarrow> real" where
  "numberOf (Num r) = r"
| "numberOf _ = 0"

section \<open>Axis Window Controller\<close>

text \<open>
  A Chart.js scale as the two callbacks see it: its id, its orientation and the range
  \<^verbatim>\<open>scale.min\<close>, \<^verbatim>\<open>scale.max\<close> that Chart.js has computed (finite numbers) before it
  calls \<^verbatim>\<open>afterDataLimits\<close>.
\<close>

record scale =
  axis_id :: string
  isHorizontal :: bool
  min_val :: real
  max_val :: real

text \<open>\<^verbatim>\<open>Math.floor\<close> on a finite number.\<close>

definition Math_floor :: "real \<Rightarrow> real" where
  "Math_floor v = of_int \<lfloor>v\<rfloor>"


text \<open>
  What \<^verbatim>\<open>syncXYWindowSize\<close> reads of one dataset: \<^verbatim>\<open>chart.isDatasetVisible(i)\<close>, the axis
  ids of \<^verbatim>\<open>chart.getDatasetMeta(i)\<close>, and \<^verbatim>\<open>dataset.data\<close>. Chart.js keeps one element of
  \<^verbatim>\<open>meta.data\<close> per raw value, so each raw value is paired with
  \<^verbatim>\<open>meta.data[index].hidden\<close>.
\<close>

record dataset_view =
  visible :: bool
  xAxisID :: string
  yAxisID :: string
  raw_data :: "(point \<times> bool) list"

text \<open>The four accumulators \<^verbatim>\<open>min.x, max.x, min.y, max.y\<close>; \<open>None\<close> is \<^verbatim>\<open>null\<close>.\<close>

record extent =
  min_x :: "real option"
  max_x :: "real option"
  min_y :: "real option"
  max_y :: "real option"

definition no_extent :: extent where
  "no_extent = \<lparr>min_x = None, max_x = None, min_y = None, max_y = None\<rparr>"

text \<open>
  \<^verbatim>\<open>return scale.isHorizontal() ? meta.xAxisID === scale.id : meta.yAxisID === scale.id;\<close>
\<close>

definition IDMatches :: "scale \<Rightarrow> dataset_view \<Rightarrow> bool" where
  "IDMatches scale meta =
     (if isHorizontal scale then xAxisID meta = axis_id scale
      else yAxisID meta = axis_id scale)"

text \<open>\<^verbatim>\<open>if (m === null || v < m) m = v\<close> and \<^verbatim>\<open>if (m === null || v > m) m = v\<close>.\<close>

fun lower :: "real option \<Rightarrow> real \<Rightarrow> real option" where
  "lower None v = Some v"
| "lower (Some m) v = (if v < m then Some v else Some m)"

fun raise :: "real option \<Rightarrow> real \<Rightarrow> real option" where
  "raise None v = Some v"
| "raise (Some m) v = (if v > m then Some v else Some m)"

text \<open>
  The body of the inner \<^verbatim>\<open>Chart.helpers.each(dataset.data, ...)\<close>: a raw value with an
  invalid coordinate, or whose element is hidden, is skipped.
\<close>

fun eachValue :: "extent \<Rightarrow> point \<times> bool \<Rightarrow> extent" where
  "eachValue e (rawValue, hidden) =
     (if isValidValue (x_coord rawValue) \<and> isValidValue (y_coord rawValue) \<and> hidden = False
      then \<lparr>min_x = lower (min_x e) (numberOf (x_coord rawValue)),
            max_x = raise (max_x e) (numberOf (x_coord rawValue)),
            min_y = lower (min_y e) (numberOf (y_coord rawValue)),
            max_y = raise (max_y e) (numberOf (y_coord rawValue))\<rparr>
      else e)"

text \<open>The body of the outer \<^verbatim>\<open>Chart.helpers.each(datasets, ...)\<close>.\<close>

definition eachDataset :: "scale \<Rightarrow> extent \<Rightarrow> dataset_view \<Rightarrow> extent" where
  "eachDataset scale e dataset =
     (if visible dataset \<and> IDMatches scale dataset
      then foldl eachValue e (raw_data dataset) else e)"

text \<open>
  \<^verbatim>\<open>
  if (isValidValue(min.x) && isValidValue(min.y) &&
      isValidValue(max.x) && isValidValue(max.y)) {
      const max_diff = Math.max(max.x - min.x, max.y - min.y);
      const mid = scale.isHorizontal()
                      ? Math.floor((max.x + min.x) / 2)
                      : Math.floor((max.y + min.y) / 2);
      scale.max = mid + max_diff / 2;
      scale.min = mid - max_diff / 2;
  }
  \<close>
  An accumulator is valid exactly when it is not \<^verbatim>\<open>null\<close>: it only ever holds a
  coordinate that passed \<^const>\<open>isValidValue\<close>.
\<close>

definition syncXYWindowSize :: "scale \<Rightarrow> dataset_view list \<Rightarrow> scale" where
  "syncXYWindowSize scale datasets =
     (let e = foldl (eachDataset scale) no_extent datasets in
      case (min_x e, min_y e, max_x e, max_y e) of
        (Some mnx, Some mny, Some mxx, Some mxy) \<Rightarrow>
          (let max_diff = max (mxx - mnx) (mxy - mny);
               mid = (if isHorizontal scale then Math_floor ((mxx + mnx) / 2)
                      else Math_floor ((mxy + mny) / 2))
           in scale\<lparr>max_val := mid + max_diff / 2, min_val := mid - max_diff / 2\<rparr>)
      | _ \<Rightarrow> scale)"

subsection \<open>The extent in the words of the specification\<close>

text \<open>
  The visible finite points that feed an axis: the raw values of the visible datasets
  bound to the axis whose coordinates are both finite and whose element is not hidden.
\<close>

definition finitePoints :: "(point \<times> bool) list \<Rightarrow> (real \<times> real) list" where
  "finitePoints vs =
     map (\<lambda>(p, h). (numberOf (x_coord p), numberOf (y_coord p)))
       (filter (\<lambda>(p, h). isValidValue (x_coord p) \<and> isValidValue (y_coord p) \<and> h = False) vs)"

definition visiblePoints :: "scale \<Rightarrow> dataset_view list \<Rightarrow> (real \<times> real) list" where
  "visiblePoints scale datasets =
     concat (map (\<lambda>d. finitePoints (raw_data d))
       (filter (\<lambda>d. visible d \<and> IDMatches scale d) datasets))"

text \<open>
  The joint auto-fit range as the specification words it: the width \<open>d\<close> is the
  larger of the two data spans and the centre is the arithmetic mean of the axis's own
  smallest and largest data value.
\<close>

definition dataSpan :: "(real \<times> real) list \<Rightarrow> real" where
  "dataSpan ps = max (Max (fst ` set ps) - Min (fst ` set ps))
                     (Max (snd ` set ps) - Min (snd ` set ps))"

definition dataMean :: "bool \<Rightarrow> (real \<times> real) list \<Rightarrow> real" where
  "dataMean horizontal ps =
     (if horizontal then (Max (fst ` set ps) + Min (fst ` set ps)) / 2
      else (Max (snd ` set ps) + Min (snd ` set ps)) / 2)"


section \<open>Series and property bags\<close>

text \<open>
  A style or a series is a JavaScript object used as an open bag of keys. It is kept as
  the association list of its own keys in the order \<^verbatim>\<open>for (key in o)\<close> enumerates
  them, which is the insertion order for keys that are not array indices.
\<close>

datatype jsval = VUndefined | VBool bool | VNum real | VStr string | VData "point list"

type_synonym obj = "(string \<times> jsval) list"

text \<open>\<^verbatim>\<open>o[key]\<close> for the keys the code reads: a missing key reads as \<^verbatim>\<open>undefined\<close>.\<close>

fun getProp :: "obj \<Rightarrow> string \<Rightarrow> jsval" where
  "getProp [] key = VUndefined"
| "getProp ((k, v) # rest) key = (if k = key then v else getProp rest key)"

text \<open>\<^verbatim>\<open>o[key] = v\<close>: an existing key keeps its place, a new key goes last.\<close>

fun setProp :: "obj \<Rightarrow> string \<Rightarrow> jsval \<Rightarrow> obj" where
  "setProp [] key v = [(key, v)]"
| "setProp ((k, w) # rest) key v =
     (if k = key then (k, v) # rest else (k, w) # setProp rest key v)"

definition defaultPolygonProperties :: obj where
  "defaultPolygonProperties =
     [(''color'', VStr ''rgba(255, 0, 0, 0.8)''),
      (''borderWidth'', VNum 2),
      (''pointRadius'', VNum 0),
      (''fill'', VBool False),
      (''showLine'', VBool True),
      (''showText'', VBool True),
      (''cubicInterpolationMode'', VStr ''monotone''),
      (''lineTension'', VNum 0)]"

text \<open>
  The legend filter of \<^verbatim>\<open>initializeCanvas\<close>:
  \<^verbatim>\<open>return !legendItem.text.startsWith('skip_');\<close>
\<close>

definition startsWith :: "string \<Rightarrow> string \<Rightarrow> bool" where
  "startsWith s p = (take (length p) s = p)"

definition legendFilter :: "string \<Rightarrow> bool" where
  "legendFilter text = (startsWith text ''skip_'' = False)"

section \<open>Names\<close>

text \<open>
  The names of cars, lines and polygons are arbitrary strings, and two mechanisms of the
  language and of lodash treat some of them specially.

  \<^bold>\<open>Inherited members.\<close> \<^verbatim>\<open>this.name2idx = {}\<close> is a plain object, so
  \<^verbatim>\<open>this.name2idx[name]\<close> finds the members of \<^verbatim>\<open>Object.prototype\<close> for the names
  below: the value read is a function (for \<^verbatim>\<open>__proto__\<close> an object), not
  \<^verbatim>\<open>undefined\<close>.
\<close>

definition inheritedNames :: "string list" where
  "inheritedNames =
     [''constructor'', ''__defineGetter__'', ''__defineSetter__'', ''hasOwnProperty'',
      ''__lookupGetter__'', ''__lookupSetter__'', ''isPrototypeOf'',
      ''propertyIsEnumerable'', ''toString'', ''valueOf'', ''__proto__'',
      ''toLocaleString'']"

text \<open>
  \<^bold>\<open>Paths.\<close> \<^verbatim>\<open>_.get(object, `cars[${name}]`, dflt)\<close> hands lodash a path string. lodash
  cuts it into keys with the expression
  \<^verbatim>\<open>/[^.[\]]+|\[(?:(-?\d+(?:\.\d+)?)|(["'])((?:(?!\2)[^\\]|\\.)*?)\2)\]|(?=(?:\.|\[\])(?:\.|\[\]|$))/g\<close>
  and walks the keys down from \<^verbatim>\<open>object\<close>; it returns \<^verbatim>\<open>dflt\<close> when the walk ends in
  \<^verbatim>\<open>undefined\<close>. \<open>bracketPath name\<close> is the list of keys that the part \<^verbatim>\<open>[name]\<close> of
  the path yields, for the names this development covers:
  \<^item> a name without \<^verbatim>\<open>.\<close>, \<^verbatim>\<open>[\<close>, \<^verbatim>\<open>]\<close> that does not begin with a quote is one
    key, the name itself (also when it is empty or a number);
  \<^item> a name without \<^verbatim>\<open>[\<close>, \<^verbatim>\<open>]\<close> and without a leading quote that has dots, no
    empty part between them, and a character that cannot stand in a number, is cut at
    its dots: \<^verbatim>\<open>a.b\<close> is the key \<^verbatim>\<open>a\<close> followed by the key \<^verbatim>\<open>b\<close>;
  \<^item> every other name is left out (\<open>None\<close>).
\<close>

fun splitDots :: "string \<Rightarrow> string list" where
  "splitDots [] = [[]]"
| "splitDots (c # cs) =
     (if c = CHR ''.'' then [] # splitDots cs
      else (case splitDots cs of [] \<Rightarrow> [[c]] | part # parts \<Rightarrow> (c # part) # parts))"

definition startsWithQuote :: "string \<Rightarrow> bool" where
  "startsWithQuote name = (case name of [] \<Rightarrow> False | c # cs \<Rightarrow> c = CHR 0x27 \<or> c = CHR 0x22)"

definition bracketPath :: "string \<Rightarrow> string list option" where
  "bracketPath name =
     (if list_ex (\<lambda>c. c = CHR ''['' \<or> c = CHR '']'') name then None
      else if startsWithQuote name then None
      else if list_ex (\<lambda>c. c = CHR ''.'') name = False then Some [name]
      else if list_all (\<lambda>c. c \<in> set ''0123456789-.'') name then None
      else if list_ex (\<lambda>part. part = []) (splitDots name) then None
      else Some (splitDots name))"

text \<open>
  The outcome of \<^verbatim>\<open>_.get(root, `coll[${name}]`)\<close>, where \<open>coll\<close> holds the own keys of
  the collection \<^verbatim>\<open>root.coll\<close> (none when the collection is absent):
  \<^item> \<open>Found v\<close>: the walk ends at the own key of the collection with the value \<open>v\<close>;
  \<^item> \<open>Missing\<close>: the walk ends in \<^verbatim>\<open>undefined\<close>, so the default is returned;
  \<^item> \<open>Outside\<close>: the walk reads an inherited member or goes into a value, or the name
    is one \<^const>\<open>bracketPath\<close> leaves out. What the code does then is not modelled.
\<close>

datatype 'a lookup = Found 'a | Missing | Outside

definition lodash_get :: "(string \<times> 'a) list \<Rightarrow> string \<Rightarrow> 'a lookup" where
  "lodash_get coll name =
     (case bracketPath name of
        None \<Rightarrow> Outside
      | Some [] \<Rightarrow> Outside
      | Some (key # rest) \<Rightarrow>
          (case map_of coll key of
             Some v \<Rightarrow> (if rest = [] then Found v else Outside)
           | None \<Rightarrow> (if key \<in> set inheritedNames then Outside else Missing)))"

section \<open>Dataset Registry\<close>

text \<open>
  The state of one mounted graph: the own keys of \<^verbatim>\<open>this.name2idx\<close> with their indices
  (one entry per key, so the length of the list is
  \<^verbatim>\<open>Object.keys(this.name2idx).length\<close>), and \<^verbatim>\<open>this.chart.data.datasets\<close>.
\<close>

record chart_state =
  name2idx :: "(string \<times> nat) list"
  datasets :: "obj list"

text \<open>\<^verbatim>\<open>this.name2idx = {}\<close> and a new chart without datasets.\<close>

definition initializeCanvas :: chart_state where
  "initializeCanvas = \<lparr>name2idx = [], datasets = []\<rparr>"

text \<open>
  \<^verbatim>\<open>
  if (this.name2idx[name] === undefined) {
      this.name2idx[name] = this.chart.data.datasets.length;
  }
  const idx = this.name2idx[name];
  \<close>
  For an inherited name the test is false, nothing is registered, and \<open>idx\<close> is the
  inherited member, which is not a number: \<open>None\<close>.
\<close>

definition resolveIdx :: "chart_state \<Rightarrow> string \<Rightarrow> chart_state \<times> nat option" where
  "resolveIdx st name =
     (if name \<in> set inheritedNames then (st, None)
      else (case map_of (name2idx st) name of
              None \<Rightarrow> (st\<lparr>name2idx := name2idx st @ [(name, length (datasets st))]\<rparr>,
                       Some (length (datasets st)))
            | Some idx \<Rightarrow> (st, Some idx)))"

text \<open>
  \<^verbatim>\<open>
  updateData(idx, name, properties, data) {
      if (this.chart.data.datasets[idx] === undefined) {
          const config = { label: name, showText: properties.showLabel, text: name,
              backgroundColor: properties.color, borderColor: properties.color,
              data: data };
          for (const key in properties) { config[key] = properties[key]; }
          this.chart.data.datasets.push(config);
      } else {
          this.chart.data.datasets[idx].text = name;
          this.chart.data.datasets[idx].data = data;
      }
  }
  \<close>
  The sequence holds no \<^verbatim>\<open>undefined\<close> entry, so \<^verbatim>\<open>datasets[idx] === undefined\<close> says
  that \<open>idx\<close> is not a number or is past the end. \<^verbatim>\<open>push\<close> appends at the end,
  wherever \<open>idx\<close> points.
\<close>

definition newConfig :: "string \<Rightarrow> obj \<Rightarrow> point list \<Rightarrow> obj" where
  "newConfig name properties data =
     foldl (\<lambda>config key. setProp config key (getProp properties key))
       [(''label'', VStr name),
        (''showText'', getProp properties ''showLabel''),
        (''text'', VStr name),
        (''backgroundColor'', getProp properties ''color''),
        (''borderColor'', getProp properties ''color''),
        (''data'', VData data)]
       (map fst properties)"

definition updateData ::
  "chart_state \<Rightarrow> nat option \<Rightarrow> string \<Rightarrow> obj \<Rightarrow> point list \<Rightarrow> chart_state" where
  "updateData st idx name properties data =
     (case idx of
        None \<Rightarrow> st\<lparr>datasets := datasets st @ [newConfig name properties data]\<rparr>
      | Some i \<Rightarrow>
          (if length (datasets st) \<le> i
           then st\<lparr>datasets := datasets st @ [newConfig name properties data]\<rparr>
           else st\<lparr>datasets := (datasets st)
                  [i := setProp (setProp (datasets st ! i) ''text'' (VStr name))
                          ''data'' (VData data)]\<rparr>))"

section \<open>Frame Update Pipeline\<close>

text \<open>
  \<^verbatim>\<open>STORE.hmi.calculateCarPolygonPoints(x, y, heading)\<close> belongs to the application store;
  it is a parameter \<open>calc\<close> of the pipeline.
\<close>

type_synonym footprint = "jsnum \<Rightarrow> jsnum \<Rightarrow> jsnum \<Rightarrow> point list"

text \<open>
  \<^verbatim>\<open>updateCar(name, point, properties)\<close>. \<^verbatim>\<open>arrowProperties\<close> is another name of the
  object \<^verbatim>\<open>properties\<close>, so the three assignments change that object; the function
  returns it beside the state. The series itself is the new object \<^verbatim>\<open>config\<close> of
  \<^verbatim>\<open>updateData\<close>, which copies the keys.
\<close>

definition updateCar ::
  "footprint \<Rightarrow> chart_state \<Rightarrow> string \<Rightarrow> point \<Rightarrow> obj \<Rightarrow> chart_state \<times> obj" where
  "updateCar calc st name point properties =
     (let arrowName = name @ ''_arrow'';
          (st1, idx) = resolveIdx st arrowName;
          arrowProperties = setProp (setProp (setProp properties
              ''specialMarker'' (VStr ''car''))
              ''borderWidth'' (VNum 0))
              ''pointRadius'' (VNum 0);
          st2 = updateData st1 idx arrowName arrowProperties [point];
          polygonName = ''skip_legend_'' @ name @ ''_car_bounding_box'';
          (st3, idx2) = resolveIdx st2 polygonName;
          polygon = calc (x_coord point) (y_coord point) (heading point);
          polygonProperties =
            [(''borderWidth'', VNum 1),
             (''pointRadius'', VNum 0),
             (''color'', getProp arrowProperties ''color''),
             (''showLine'', VBool True),
             (''fill'', VBool False),
             (''lineTension'', VNum 0)]
      in (updateData st3 idx2 polygonName polygonProperties polygon, arrowProperties))"

text \<open>
  The two payloads of a frame, each collection with its own keys in the order
  \<^verbatim>\<open>for (name in collection)\<close> enumerates them. A collection that is absent is iterated
  like an empty one, so it is the empty list; a polygon whose point list is falsy is
  \<open>None\<close>.
\<close>

record data_bundle =
  d_cars :: "(string \<times> point) list"
  d_lines :: "(string \<times> point list) list"
  d_polygons :: "(string \<times> point list option) list"

record props_bundle =
  p_cars :: "(string \<times> obj) list"
  p_lines :: "(string \<times> obj) list"
  p_polygons :: "(string \<times> obj) list"

record props =
  props_data :: "data_bundle option"
  props_properties :: "props_bundle option"

text \<open>The default \<^verbatim>\<open>{}\<close> of \<^verbatim>\<open>_.get(datasets, `cars[${name}]`, {})\<close>.\<close>

definition emptyPoint :: point where
  "emptyPoint = \<lparr>x_coord = Undefined, y_coord = Undefined, heading = Undefined\<rparr>"

text \<open>
  The collection after the object under the key \<open>name\<close> has been changed in place.
\<close>

fun changed :: "(string \<times> obj) list \<Rightarrow> string \<Rightarrow> obj \<Rightarrow> (string \<times> obj) list" where
  "changed [] name ob = []"
| "changed ((k, v) # rest) name ob =
     (if k = name then (k, ob) # rest else (k, v) # changed rest name ob)"

text \<open>
  \<^verbatim>\<open>
  for (const name in props.properties.cars) {
      const point = _.get(datasets, `cars[${name}]`, {});
      const properties = _.get(props, `properties.cars[${name}]`, {});
      this.updateCar(name, point, properties);
  }
  \<close>
  The loop runs over the keys of the collection and carries the collection along:
  when lodash finds the car's own properties, \<^verbatim>\<open>updateCar\<close> changes that object; when
  it returns the default, \<^verbatim>\<open>updateCar\<close> changes a fresh \<^verbatim>\<open>{}\<close> and the collection
  stays as it is. The result is \<open>None\<close> when a lookup is \<^const>\<open>Outside\<close>.
\<close>

fun drawCars ::
  "footprint \<Rightarrow> data_bundle \<Rightarrow> string list \<Rightarrow> chart_state \<Rightarrow> (string \<times> obj) list
     \<Rightarrow> (chart_state \<times> (string \<times> obj) list) option" where
  "drawCars calc d [] st cars = Some (st, cars)"
| "drawCars calc d (name # rest) st cars =
     (case lodash_get (d_cars d) name of
        Outside \<Rightarrow> None
      | Missing \<Rightarrow>
          (case lodash_get cars name of
             Outside \<Rightarrow> None
           | Missing \<Rightarrow> drawCars calc d rest (fst (updateCar calc st name emptyPoint [])) cars
           | Found properties \<Rightarrow>
               drawCars calc d rest (fst (updateCar calc st name emptyPoint properties))
                 (changed cars name (snd (updateCar calc st name emptyPoint properties))))
      | Found point \<Rightarrow>
          (case lodash_get cars name of
             Outside \<Rightarrow> None
           | Missing \<Rightarrow> drawCars calc d rest (fst (updateCar calc st name point [])) cars
           | Found properties \<Rightarrow>
               drawCars calc d rest (fst (updateCar calc st name point properties))
                 (changed cars name (snd (updateCar calc st name point properties)))))"

text \<open>
  \<^verbatim>\<open>
  for (const name in props.properties.lines) {
      if (this.name2idx[name] === undefined) {
          this.name2idx[name] = this.chart.data.datasets.length;
      }
      const idx = this.name2idx[name];
      const properties = _.get(props, `properties.lines[${name}]`, {});
      const points = _.get(datasets, `lines[${name}]`, []);
      this.updateData(idx, name, properties, points);
  };
  \<close>
\<close>

fun drawLines ::
  "data_bundle \<Rightarrow> props_bundle \<Rightarrow> string list \<Rightarrow> chart_state \<Rightarrow> chart_state option" where
  "drawLines d pb [] st = Some st"
| "drawLines d pb (name # rest) st =
     (case lodash_get (p_lines pb) name of
        Outside \<Rightarrow> None
      | Missing \<Rightarrow>
          (case lodash_get (d_lines d) name of
             Outside \<Rightarrow> None
           | Missing \<Rightarrow>
               drawLines d pb rest
                 (updateData (fst (resolveIdx st name)) (snd (resolveIdx st name)) name [] [])
           | Found points \<Rightarrow>
               drawLines d pb rest
                 (updateData (fst (resolveIdx st name)) (snd (resolveIdx st name)) name []
                    points))
      | Found properties \<Rightarrow>
          (case lodash_get (d_lines d) name of
             Outside \<Rightarrow> None
           | Missing \<Rightarrow>
               drawLines d pb rest
                 (updateData (fst (resolveIdx st name)) (snd (resolveIdx st name)) name
                    properties [])
           | Found points \<Rightarrow>
               drawLines d pb rest
                 (updateData (fst (resolveIdx st name)) (snd (resolveIdx st name)) name
                    properties points)))"

text \<open>
  \<^verbatim>\<open>
  for (const name in datasets.polygons) {
      const points = _.get(datasets, `polygons[${name}]`);
      if (!points) { continue; }
      const properties =
          _.get(props, `properties.polygons[${name}]`, defaultPolygonProperties);
      this.updateData(idx, name, properties, points);
      idx++;
  }
  \<close>
\<close>

fun drawPolygons ::
  "data_bundle \<Rightarrow> props_bundle \<Rightarrow> string list \<Rightarrow> chart_state \<Rightarrow> nat
     \<Rightarrow> (chart_state \<times> nat) option" where
  "drawPolygons d pb [] st idx = Some (st, idx)"
| "drawPolygons d pb (name # rest) st idx =
     (case lodash_get (d_polygons d) name of
        Outside \<Rightarrow> None
      | Missing \<Rightarrow> drawPolygons d pb rest st idx
      | Found None \<Rightarrow> drawPolygons d pb rest st idx
      | Found (Some points) \<Rightarrow>
          (case lodash_get (p_polygons pb) name of
             Outside \<Rightarrow> None
           | Missing \<Rightarrow>
               drawPolygons d pb rest
                 (updateData st (Some idx) name defaultPolygonProperties points) (idx + 1)
           | Found properties \<Rightarrow>
               drawPolygons d pb rest
                 (updateData st (Some idx) name properties points) (idx + 1)))"

text \<open>
  \<^verbatim>\<open>updateChart(props)\<close>. \<^verbatim>\<open>splice(idx, length - idx)\<close> removes everything from \<open>idx\<close> on
  and nothing when \<open>idx\<close> is past the end. The redraw \<^verbatim>\<open>this.chart.update(0)\<close> leaves
  the registry and the series as they are. The frame is returned as the call leaves it.
\<close>

definition updateChart ::
  "footprint \<Rightarrow> chart_state \<Rightarrow> props \<Rightarrow> (chart_state \<times> props) option" where
  "updateChart calc st frame =
     (case props_data frame of
        None \<Rightarrow> Some (st, frame)
      | Some d \<Rightarrow>
         (case props_properties frame of
            None \<Rightarrow> Some (st, frame)
          | Some pb \<Rightarrow>
             (case drawCars calc d (map fst (p_cars pb)) st (p_cars pb) of
                None \<Rightarrow> None
              | Some (st1, cars1) \<Rightarrow>
                 (case drawLines d pb (map fst (p_lines pb)) st1 of
                    None \<Rightarrow> None
                  | Some st2 \<Rightarrow>
                     (case drawPolygons d pb (map fst (d_polygons d)) st2
                             (length (name2idx st2)) of
                        None \<Rightarrow> None
                      | Some (st3, idx) \<Rightarrow>
                          Some (st3\<lparr>datasets := take idx (datasets st3)\<rparr>,
                                frame\<lparr>props_properties := Some (pb\<lparr>p_cars := cars1\<rparr>)\<rparr>))))))"

text \<open>
  \<^verbatim>\<open>componentDidMount\<close> initialises the canvas and applies the first frame,
  \<^verbatim>\<open>componentWillReceiveProps\<close> applies each later one.
\<close>

fun runFrames :: "footprint \<Rightarrow> chart_state \<Rightarrow> props list \<Rightarrow> chart_state option" where
  "runFrames calc st [] = Some st"
| "runFrames calc st (frame # frames) =
     (case updateChart calc st frame of
        None \<Rightarrow> None
      | Some (st1, frame1) \<Rightarrow> runFrames calc st1 frames)"

section \<open>Graph construction\<close>

text \<open>
  \<^verbatim>\<open>
  function generateScatterGraph(setting, lineDatasets, carDatasets, polygonsDatasets) {
      if (!lineDatasets || !setting || !setting.properties || !setting.options) {
          console.error("Graph setting or data not found:", setting.title);
          return null;
      }
      return ( <ScatterGraph key={setting.title} title={setting.title}
                  options={setting.options} properties={setting.properties}
                  data={{lines: lineDatasets, cars: carDatasets,
                         polygons: polygonsDatasets}} /> );
  }
  \<close>
  An argument that is \<^verbatim>\<open>undefined\<close> or \<^verbatim>\<open>null\<close> is \<open>None\<close>. The options are not looked
  into, so their type is left open. Reading \<^verbatim>\<open>setting.title\<close> of a missing setting
  throws a \<^verbatim>\<open>TypeError\<close>.
\<close>

record 'o setting =
  title :: string
  s_properties :: "props_bundle option"
  s_options :: "'o option"

record 'o element =
  e_key :: string
  e_title :: string
  e_options :: 'o
  e_properties :: props_bundle
  e_data :: data_bundle

datatype error = TypeError

datatype log_entry = ConsoleError string string

definition generateScatterGraph ::
  "'o setting option \<Rightarrow> (string \<times> point list) list option \<Rightarrow> (string \<times> point) list option
     \<Rightarrow> (string \<times> point list option) list option
     \<Rightarrow> error + (log_entry list \<times> 'o element option)" where
  "generateScatterGraph setting lineDatasets carDatasets polygonsDatasets =
     (case (lineDatasets, setting) of
        (Some lines, Some s) \<Rightarrow>
          (case (s_properties s, s_options s) of
             (Some pb, Some opts) \<Rightarrow>
               Inr ([], Some \<lparr>e_key = title s, e_title = title s, e_options = opts,
                               e_properties = pb,
                               e_data = \<lparr>d_cars = (case carDatasets of None \<Rightarrow> [] | Some c \<Rightarrow> c),
                                         d_lines = lines,
                                         d_polygons = (case polygonsDatasets of
                                                         None \<Rightarrow> [] | Some p \<Rightarrow> p)\<rparr>\<rparr>)
           | _ \<Rightarrow> Inr ([ConsoleError ''Graph setting or data not found:'' (title s)], None))
      | (_, Some s) \<Rightarrow>
          Inr ([ConsoleError ''Graph setting or data not found:'' (title s)], None)
      | (_, None) \<Rightarrow> Inl TypeError)"

section \<open>Notions used in the statements\<close>

subsection \<open>Axis Window Controller\<close>

text \<open>One step of the inner loop on a raw value that is not skipped.\<close>

definition widen :: "extent \<Rightarrow> real \<times> real \<Rightarrow> extent" where
  "widen e p = \<lparr>min_x = lower (min_x e) (fst p), max_x = raise (max_x e) (fst p),
                 min_y = lower (min_y e) (snd p), max_y = raise (max_y e) (snd p)\<rparr>"


subsection \<open>Registry and pipeline\<close>

text \<open>The two series names \<^verbatim>\<open>updateCar\<close> derives from a car name.\<close>

definition arrowName :: "string \<Rightarrow> string" where
  "arrowName name = name @ ''_arrow''"

definition boxName :: "string \<Rightarrow> string" where
  "boxName name = ''skip_legend_'' @ name @ ''_car_bounding_box''"

text \<open>The step every car and line series goes through: resolve the name, then update.\<close>

definition resolveAndUpdate :: "chart_state \<Rightarrow> string \<Rightarrow> obj \<Rightarrow> point list \<Rightarrow> chart_state" where
  "resolveAndUpdate st name properties data =
     updateData (fst (resolveIdx st name)) (snd (resolveIdx st name)) name properties data"

text \<open>The three assignments of \<^verbatim>\<open>updateCar\<close> to the car's properties.\<close>

definition markCar :: "obj \<Rightarrow> obj" where
  "markCar properties =
     setProp (setProp (setProp properties ''specialMarker'' (VStr ''car''))
       ''borderWidth'' (VNum 0)) ''pointRadius'' (VNum 0)"

text \<open>What the three assignments make of an object \<open>ob\<close>: the object \<open>ob'\<close>.\<close>

definition carMarked :: "obj \<Rightarrow> obj \<Rightarrow> bool" where
  "carMarked ob ob' =
     (\<forall>key. getProp ob' key =
        (if key = ''specialMarker'' then VStr ''car''
         else if key = ''borderWidth'' then VNum 0
         else if key = ''pointRadius'' then VNum 0
         else getProp ob key))"


text \<open>A frame is accepted when neither payload is missing.\<close>

definition accepted :: "props \<Rightarrow> bool" where
  "accepted frame = (props_data frame \<noteq> None \<and> props_properties frame \<noteq> None)"


text \<open>The names in the registry.\<close>

definition registered :: "chart_state \<Rightarrow> string set" where
  "registered st = fst ` set (name2idx st)"



text \<open>
  A registry is well formed when its keys are distinct, as the keys of an object are,
  and there are at least as many series as keys.
\<close>

definition wellFormed :: "chart_state \<Rightarrow> bool" where
  "wellFormed st =
     (distinct (map fst (name2idx st)) \<and> length (name2idx st) \<le> length (datasets st))"









section \<open>Concrete inputs\<close>

text \<open>A chart with one X and one Y axis, and a visible dataset of finite points on both.\<close>

definition xAxis :: scale where
  "xAxis = \<lparr>axis_id = ''x-axis-0'', isHorizontal = True, min_val = 0, max_val = 1\<rparr>"


definition plotted :: "(jsnum \<times> jsnum) list \<Rightarrow> dataset_view" where
  "plotted ps =
     \<lparr>visible = True, xAxisID = ''x-axis-0'', yAxisID = ''y-axis-0'',
      raw_data = map (\<lambda>(a, b). (\<lparr>x_coord = a, y_coord = b, heading = Undefined\<rparr>, False)) ps\<rparr>"


text \<open>A footprint function to run the pipeline with: the position itself.\<close>

definition pointFootprint :: footprint where
  "pointFootprint x y h = [\<lparr>x_coord = x, y_coord = y, heading = h\<rparr>]"

definition frameOf :: "data_bundle \<Rightarrow> props_bundle \<Rightarrow> props" where
  "frameOf d pb = \<lparr>props_data = Some d, props_properties = Some pb\<rparr>"

text \<open>
  \<^verbatim>\<open>data = {cars: {ego: {x: 0, y: 0, heading: 0}}}\<close>,
  \<^verbatim>\<open>properties = {cars: {ego: {color: 'red'}}}\<close>
\<close>

definition egoFrame :: props where
  "egoFrame = frameOf
     \<lparr>d_cars = [(''ego'', \<lparr>x_coord = Num 0, y_coord = Num 0, heading = Num 0\<rparr>)],
      d_lines = [], d_polygons = []\<rparr>
     \<lparr>p_cars = [(''ego'', [(''color'', VStr ''red'')])], p_lines = [], p_polygons = []\<rparr>"



text \<open>A car \<^verbatim>\<open>ego\<close> beside a line that is called \<^verbatim>\<open>constructor\<close>.\<close>

definition inheritedLineFrame :: props where
  "inheritedLineFrame = frameOf
     \<lparr>d_cars = [], d_lines = [(''constructor'', [])], d_polygons = []\<rparr>
     \<lparr>p_cars = [(''ego'', [])], p_lines = [(''constructor'', [])], p_polygons = []\<rparr>"

text \<open>A polygon that is called \<^verbatim>\<open>a.b\<close>.\<close>

definition dottedPolygonFrame :: props where
  "dottedPolygonFrame = frameOf
     \<lparr>d_cars = [], d_lines = [], d_polygons = [(''a.b'', Some [])]\<rparr>
     \<lparr>p_cars = [], p_lines = [], p_polygons = []\<rparr>"

text \<open>A frame with one polygon \<^verbatim>\<open>P\<close>, then a frame with one line \<^verbatim>\<open>B\<close>.\<close>

definition polygonFrame :: props where
  "polygonFrame = frameOf
     \<lparr>d_cars = [], d_lines = [],
      d_polygons = [(''P'', Some [\<lparr>x_coord = Num 0, y_coord = Num 0, heading = Undefined\<rparr>])]\<rparr>
     \<lparr>p_cars = [], p_lines = [], p_polygons = []\<rparr>"

definition lineFrame :: props where
  "lineFrame = frameOf
     \<lparr>d_cars = [],
      d_lines = [(''B'', [\<lparr>x_coord = Num 1, y_coord = Num 1, heading = Undefined\<rparr>])],
      d_polygons = []\<rparr>
     \<lparr>p_cars = [], p_lines = [(''B'', [(''color'', VStr ''blue'')])], p_polygons = []\<rparr>"

text \<open>
  Three polygons, then the lines \<^verbatim>\<open>W\<close> and \<^verbatim>\<open>X\<close> without polygons, then the lines
  \<^verbatim>\<open>W, X, N1, N2\<close>.
\<close>

definition threePolygons :: props where
  "threePolygons = frameOf
     \<lparr>d_cars = [], d_lines = [],
      d_polygons = [(''P1'', Some []), (''P2'', Some []), (''P3'', Some [])]\<rparr>
     \<lparr>p_cars = [], p_lines = [], p_polygons = []\<rparr>"

definition twoLines :: props where
  "twoLines = frameOf
     \<lparr>d_cars = [], d_lines = [], d_polygons = []\<rparr>
     \<lparr>p_cars = [], p_lines = [(''W'', []), (''X'', [])], p_polygons = []\<rparr>"

definition fourLines :: props where
  "fourLines = frameOf
     \<lparr>d_cars = [], d_lines = [], d_polygons = []\<rparr>
     \<lparr>p_cars = [],
      p_lines = [(''W'', []), (''X'', []), (''N1'', []), (''N2'', [])],
      p_polygons = []\<rparr>"

text \<open>A line whose style carries a \<^verbatim>\<open>text\<close> key.\<close>

definition captionFrame :: props where
  "captionFrame = frameOf
     \<lparr>d_cars = [], d_lines = [(''A'', [])], d_polygons = []\<rparr>
     \<lparr>p_cars = [], p_lines = [(''A'', [(''text'', VStr ''T'')])], p_polygons = []\<rparr>"

text \<open>A complete graph setting.\<close>

definition completeSetting :: "unit setting" where
  "completeSetting =
     \<lparr>title = ''Planning'',
      s_properties = Some \<lparr>p_cars = [], p_lines = [], p_polygons = []\<rparr>,
      s_options = Some ()\<rparr>"

section \<open>Properties of the Axis Window Controller\<close>

subsection \<open>The loops compute the extent of the visible finite points\<close>

lemma finitePoints_Nil: "finitePoints [] = []"
  by (simp add: finitePoints_def)

lemma finitePoints_Cons:
  "finitePoints ((p, h) # vs) =
     (if isValidValue (x_coord p) \<and> isValidValue (y_coord p) \<and> h = False
      then (numberOf (x_coord p), numberOf (y_coord p)) # finitePoints vs
      else finitePoints vs)"
  by (simp add: finitePoints_def)

lemma eachValue_widen:
  "eachValue e (p, h) =
     (if isValidValue (x_coord p) \<and> isValidValue (y_coord p) \<and> h = False
      then widen e (numberOf (x_coord p), numberOf (y_coord p)) else e)"
  by (simp add: widen_def)

lemma eachValue_finitePoints: "foldl eachValue e vs = foldl widen e (finitePoints vs)"
proof (induction vs arbitrary: e)
  case Nil
  show ?case by (simp add: finitePoints_Nil)
next
  case (Cons v vs)
  obtain p h where v: "v = (p, h)" by (cases v)
  show ?case
    unfolding v by (simp add: eachValue_widen finitePoints_Cons Cons.IH del: eachValue.simps)
qed

lemma visiblePoints_Nil: "visiblePoints sc [] = []"
  by (simp add: visiblePoints_def)

lemma visiblePoints_Cons:
  "visiblePoints sc (d # ds) =
     (if visible d \<and> IDMatches sc d then finitePoints (raw_data d) @ visiblePoints sc ds
      else visiblePoints sc ds)"
  by (simp add: visiblePoints_def)

lemma eachDataset_visiblePoints:
  "foldl (eachDataset sc) e ds = foldl widen e (visiblePoints sc ds)"
  by (induction ds arbitrary: e)
     (simp_all add: visiblePoints_Nil visiblePoints_Cons eachDataset_def eachValue_finitePoints)

lemma lower_Some: "lower (Some m) v = Some (min v m)"
  by (auto simp: min_def)

lemma raise_Some: "raise (Some m) v = Some (max v m)"
  by (auto simp: max_def)

lemma foldl_lower:
  "foldl lower None vs = (if vs = [] then None else Some (Min (set vs)))"
proof (induction vs rule: rev_induct)
  case Nil
  show ?case by simp
next
  case (snoc v vs)
  show ?case
  proof (cases "vs = []")
    case True
    then show ?thesis by simp
  next
    case False
    have "foldl lower None (vs @ [v]) = lower (Some (Min (set vs))) v"
      using snoc.IH False by simp
    also have "\<dots> = Some (min v (Min (set vs)))"
      by (rule lower_Some)
    also have "min v (Min (set vs)) = Min (insert v (set vs))"
      using False by (simp only: Min_insert List.finite_set set_empty not_False_eq_True)
    finally show ?thesis by simp
  qed
qed

lemma foldl_raise:
  "foldl raise None vs = (if vs = [] then None else Some (Max (set vs)))"
proof (induction vs rule: rev_induct)
  case Nil
  show ?case by simp
next
  case (snoc v vs)
  show ?case
  proof (cases "vs = []")
    case True
    then show ?thesis by simp
  next
    case False
    have "foldl raise None (vs @ [v]) = raise (Some (Max (set vs))) v"
      using snoc.IH False by simp
    also have "\<dots> = Some (max v (Max (set vs)))"
      by (rule raise_Some)
    also have "max v (Max (set vs)) = Max (insert v (set vs))"
      using False by (simp only: Max_insert List.finite_set set_empty not_False_eq_True)
    finally show ?thesis by simp
  qed
qed

lemma widen_fold_fields:
  "min_x (foldl widen e ps) = foldl lower (min_x e) (map fst ps)"
  "max_x (foldl widen e ps) = foldl raise (max_x e) (map fst ps)"
  "min_y (foldl widen e ps) = foldl lower (min_y e) (map snd ps)"
  "max_y (foldl widen e ps) = foldl raise (max_y e) (map snd ps)"
  by (induction ps arbitrary: e) (simp_all add: widen_def)

lemma widen_fold_extent:
  "ps \<noteq> [] \<Longrightarrow> foldl widen no_extent ps =
     \<lparr>min_x = Some (Min (fst ` set ps)), max_x = Some (Max (fst ` set ps)),
      min_y = Some (Min (snd ` set ps)), max_y = Some (Max (snd ` set ps))\<rparr>"
  by (rule extent.equality)
     (simp_all add: widen_fold_fields no_extent_def foldl_lower foldl_raise
        del: Min_le_iff Min_less_iff Min_ge_iff Min_gr_iff)

lemma syncXYWindowSize_eq:
  "syncXYWindowSize sc ds =
     (if visiblePoints sc ds = [] then sc
      else sc\<lparr>max_val := Math_floor (dataMean (isHorizontal sc) (visiblePoints sc ds))
                           + dataSpan (visiblePoints sc ds) / 2,
              min_val := Math_floor (dataMean (isHorizontal sc) (visiblePoints sc ds))
                           - dataSpan (visiblePoints sc ds) / 2\<rparr>)"
proof (cases "visiblePoints sc ds = []")
  case True
  then show ?thesis
    by (simp add: syncXYWindowSize_def eachDataset_visiblePoints no_extent_def)
next
  case False
  then show ?thesis
    by (simp add: syncXYWindowSize_def eachDataset_visiblePoints widen_fold_extent
          Let_def dataMean_def dataSpan_def)
qed



subsection \<open>Joint auto-fit\<close>







text \<open>
  C6. When no visible point with finite x and finite y feeds the axis, the joint
  auto-fit leaves the scale, and so its range, as it was.
\<close>

theorem syncXYWindowSize_no_data:
  assumes "visiblePoints sc ds = []"
  shows "syncXYWindowSize sc ds = sc"
  using assms by (simp add: syncXYWindowSize_eq)

text \<open>
  A dataset whose only point has a \<^verbatim>\<open>NaN\<close> abscissa, and a hidden dataset: the range
  stays [0,1].
\<close>

theorem syncXYWindowSize_no_data_witness:
  "visiblePoints xAxis [plotted [(NaN, Num 3)], (plotted [(Num 5, Num 6)])\<lparr>visible := False\<rparr>] = [] \<and>
   syncXYWindowSize xAxis [plotted [(NaN, Num 3)], (plotted [(Num 5, Num 6)])\<lparr>visible := False\<rparr>]
     = xAxis \<and>
   min_val xAxis = 0 \<and> max_val xAxis = 1"
proof -
  have a: "visiblePoints xAxis
      [plotted [(NaN, Num 3)], (plotted [(Num 5, Num 6)])\<lparr>visible := False\<rparr>] = []"
    by (simp add: visiblePoints_def finitePoints_def plotted_def)
  from a syncXYWindowSize_no_data [OF a] show ?thesis
    by (simp add: xAxis_def)
qed

subsection \<open>Fixed window\<close>




section \<open>Properties of the Dataset Registry\<close>

subsection \<open>Property bags\<close>

lemma getProp_setProp:
  "getProp (setProp ob key v) k = (if k = key then v else getProp ob k)"
  by (induction ob) auto


lemma carMarked_again: "carMarked ob ob' \<Longrightarrow> carMarked ob (markCar ob')"
  by (simp add: carMarked_def markCar_def getProp_setProp)

subsection \<open>Names\<close>




lemma last_inheritedNames:
  "n \<in> set inheritedNames \<Longrightarrow> last n \<noteq> CHR ''w'' \<and> last n \<noteq> CHR ''x''"
  by (auto simp: inheritedNames_def)

lemma arrowName_not_inherited: "arrowName name \<notin> set inheritedNames"
  using last_inheritedNames [of "arrowName name"] by (auto simp: arrowName_def)

lemma boxName_not_inherited: "boxName name \<notin> set inheritedNames"
  using last_inheritedNames [of "boxName name"] by (auto simp: boxName_def)

subsection \<open>Resolving and updating\<close>

lemma name2idx_updateData: "name2idx (updateData st idx name properties data) = name2idx st"
  by (simp add: updateData_def split: option.splits)

lemma length_updateData:
  "length (datasets (updateData st idx name properties data)) =
     (case idx of
        None \<Rightarrow> Suc (length (datasets st))
      | Some i \<Rightarrow> if length (datasets st) \<le> i then Suc (length (datasets st))
                  else length (datasets st))"
  by (simp add: updateData_def split: option.splits)

text \<open>A name that is not yet registered gets the current length of the sequence.\<close>

lemma resolveIdx_fresh:
  "name \<notin> set inheritedNames \<Longrightarrow> map_of (name2idx st) name = None \<Longrightarrow>
     snd (resolveIdx st name) = Some (length (datasets st)) \<and>
     name2idx (fst (resolveIdx st name)) = name2idx st @ [(name, length (datasets st))]"
  by (simp add: resolveIdx_def)

text \<open>A name that is inherited from \<^verbatim>\<open>Object.prototype\<close> is never registered.\<close>

lemma resolveIdx_inherited:
  "name \<in> set inheritedNames \<Longrightarrow> resolveIdx st name = (st, None)"
  by (simp add: resolveIdx_def)

text \<open>An index in the registry is never changed.\<close>

lemma resolveAndUpdate_stable:
  "map_of (name2idx st) n = Some i \<Longrightarrow>
     map_of (name2idx (resolveAndUpdate st name properties data)) n = Some i"
  by (cases "map_of (name2idx st) name")
     (auto simp: resolveAndUpdate_def resolveIdx_def name2idx_updateData)

lemma registered_resolveAndUpdate:
  "registered (resolveAndUpdate st name properties data) =
     (if name \<in> set inheritedNames then registered st else insert name (registered st))"
proof (cases "map_of (name2idx st) name")
  case None
  then show ?thesis
    by (simp add: resolveAndUpdate_def resolveIdx_def registered_def name2idx_updateData)
next
  case (Some idx)
  then have "(name, idx) \<in> set (name2idx st)"
    by (rule map_of_SomeD)
  then have "name \<in> fst ` set (name2idx st)"
    by force
  with Some show ?thesis
    by (auto simp: resolveAndUpdate_def resolveIdx_def registered_def name2idx_updateData)
qed

lemma wellFormed_resolveAndUpdate:
  assumes "wellFormed st"
  shows "wellFormed (resolveAndUpdate st name properties data)"
proof (cases "name \<in> set inheritedNames")
  case True
  with assms show ?thesis
    by (simp add: wellFormed_def resolveAndUpdate_def resolveIdx_def name2idx_updateData
          length_updateData)
next
  case False
  show ?thesis
  proof (cases "map_of (name2idx st) name")
    case None
    then have "name \<notin> fst ` set (name2idx st)"
      by (simp add: map_of_eq_None_iff)
    with assms None False show ?thesis
      by (simp add: wellFormed_def resolveAndUpdate_def resolveIdx_def name2idx_updateData
            length_updateData)
  next
    case (Some idx)
    with assms False show ?thesis
      by (simp add: wellFormed_def resolveAndUpdate_def resolveIdx_def name2idx_updateData
            length_updateData)
  qed
qed

subsection \<open>The three loops\<close>

lemma updateCar_resolveAndUpdate:
  "updateCar calc st name point properties =
     (resolveAndUpdate
        (resolveAndUpdate st (arrowName name) (markCar properties) [point])
        (boxName name)
        [(''borderWidth'', VNum 1), (''pointRadius'', VNum 0),
         (''color'', getProp (markCar properties) ''color''),
         (''showLine'', VBool True), (''fill'', VBool False), (''lineTension'', VNum 0)]
        (calc (x_coord point) (y_coord point) (heading point)),
      markCar properties)"
  by (simp add: updateCar_def resolveAndUpdate_def arrowName_def boxName_def markCar_def
        Let_def split: prod.splits)

lemma wellFormed_updateCar:
  "wellFormed st \<Longrightarrow> wellFormed (fst (updateCar calc st name point properties))"
  by (simp add: updateCar_resolveAndUpdate wellFormed_resolveAndUpdate)

lemma registered_updateCar:
  "registered (fst (updateCar calc st name point properties)) =
     insert (arrowName name) (insert (boxName name) (registered st))"
  by (auto simp add: updateCar_resolveAndUpdate registered_resolveAndUpdate
        arrowName_not_inherited boxName_not_inherited)

lemma updateCar_stable:
  "map_of (name2idx st) n = Some i \<Longrightarrow>
     map_of (name2idx (fst (updateCar calc st name point properties))) n = Some i"
  by (simp add: updateCar_resolveAndUpdate resolveAndUpdate_stable)

lemma drawCars_step:
  assumes "drawCars calc d (name # rest) st cars = Some r"
  shows "\<exists>point properties cars1.
           drawCars calc d rest (fst (updateCar calc st name point properties)) cars1 = Some r \<and>
           (lodash_get cars name = Missing \<and> cars1 = cars \<or>
            lodash_get cars name = Found properties \<and>
              cars1 = changed cars name (markCar properties))"
  using assms
  by (auto simp: updateCar_resolveAndUpdate split: lookup.splits)

lemma drawCars_state:
  assumes "drawCars calc d names st cars = Some (st', cars')"
  shows "(wellFormed st \<longrightarrow> wellFormed st') \<and>
         registered st' = registered st \<union> arrowName ` set names \<union> boxName ` set names \<and>
         (\<forall>n i. map_of (name2idx st) n = Some i \<longrightarrow> map_of (name2idx st') n = Some i)"
  using assms
proof (induction names arbitrary: st cars)
  case Nil
  then show ?case by simp
next
  case (Cons name rest)
  from drawCars_step [OF Cons.prems] obtain point properties cars1 where
    step: "drawCars calc d rest (fst (updateCar calc st name point properties)) cars1
             = Some (st', cars')"
    by blast
  from Cons.IH [OF step] show ?case
    by (auto simp: wellFormed_updateCar registered_updateCar updateCar_stable)
qed

lemma drawLines_step:
  assumes "drawLines d pb (name # rest) st = Some r"
  shows "\<exists>properties points. drawLines d pb rest (resolveAndUpdate st name properties points) = Some r"
  using assms by (auto simp: resolveAndUpdate_def split: lookup.splits)

lemma drawLines_state:
  assumes "drawLines d pb names st = Some st'"
  shows "(wellFormed st \<longrightarrow> wellFormed st') \<and>
         registered st' = registered st \<union> (set names - set inheritedNames) \<and>
         (\<forall>n i. map_of (name2idx st) n = Some i \<longrightarrow> map_of (name2idx st') n = Some i)"
  using assms
proof (induction names arbitrary: st)
  case Nil
  then show ?case by simp
next
  case (Cons name rest)
  from drawLines_step [OF Cons.prems] obtain properties points where
    step: "drawLines d pb rest (resolveAndUpdate st name properties points) = Some st'"
    by blast
  from Cons.IH [OF step] show ?case
    by (auto simp: wellFormed_resolveAndUpdate registered_resolveAndUpdate
          resolveAndUpdate_stable)
qed


subsection \<open>One frame\<close>

lemma updateChart_rejected:
  "accepted frame = False \<Longrightarrow> updateChart calc st frame = Some (st, frame)"
  by (auto simp: accepted_def updateChart_def split: option.splits)

lemma updateChart_cases:
  assumes "updateChart calc st frame = Some (st', frame')"
    and "props_data frame = Some d" "props_properties frame = Some pb"
  shows "\<exists>st1 cars1 st2 st3 idx.
           drawCars calc d (map fst (p_cars pb)) st (p_cars pb) = Some (st1, cars1) \<and>
           drawLines d pb (map fst (p_lines pb)) st1 = Some st2 \<and>
           drawPolygons d pb (map fst (d_polygons d)) st2 (length (name2idx st2))
             = Some (st3, idx) \<and>
           st' = st3\<lparr>datasets := take idx (datasets st3)\<rparr> \<and>
           frame' = frame\<lparr>props_properties := Some (pb\<lparr>p_cars := cars1\<rparr>)\<rparr>"
  using assms by (auto simp: updateChart_def split: option.splits prod.splits)


text \<open>Indices of names that persist never change.\<close>

lemma updateChart_stable:
  assumes "updateChart calc st frame = Some (st', frame')"
    and "map_of (name2idx st) n = Some i"
  shows "map_of (name2idx st') n = Some i"
proof (cases "accepted frame")
  case False
  with assms show ?thesis by (simp add: updateChart_rejected)
next
  case True
  then obtain d pb where f: "props_data frame = Some d" "props_properties frame = Some pb"
    by (auto simp: accepted_def)
  from updateChart_cases [OF assms(1) f] obtain st1 cars1 st2 st3 idx where
    cars: "drawCars calc d (map fst (p_cars pb)) st (p_cars pb) = Some (st1, cars1)" and
    lines: "drawLines d pb (map fst (p_lines pb)) st1 = Some st2" and
    polys: "drawPolygons d pb (map fst (d_polygons d)) st2 (length (name2idx st2))
              = Some (st3, idx)" and
    st': "st' = st3\<lparr>datasets := take idx (datasets st3)\<rparr>"
    by blast
  have "name2idx st3 = name2idx st2"
  proof -
    have "\<And>names st idx r. drawPolygons d pb names st idx = Some r \<Longrightarrow> name2idx (fst r) = name2idx st"
    proof -
      fix names st idx r
      show "drawPolygons d pb names st idx = Some r \<Longrightarrow> name2idx (fst r) = name2idx st"
        by (induction names arbitrary: st idx)
           (auto simp: name2idx_updateData split: lookup.splits option.splits)
    qed
    from this [OF polys] show ?thesis by simp
  qed
  with drawCars_state [OF cars] drawLines_state [OF lines] assms(2) show ?thesis
    by (simp add: st')
qed

subsection \<open>The car properties a frame comes back with\<close>





subsection \<open>Frames with plain names are covered\<close>






subsection \<open>A run of frames\<close>










section \<open>Properties of the Frame Update Pipeline\<close>




text \<open>
  Names that are not plain. A line called \<^verbatim>\<open>constructor\<close> is never registered; its
  series is pushed and then cut off by the truncation, so the car \<^verbatim>\<open>ego\<close> and that
  line leave two series. A polygon called \<^verbatim>\<open>a.b\<close> is skipped, because lodash looks
  for the key \<^verbatim>\<open>b\<close> of a polygon \<^verbatim>\<open>a\<close>.
\<close>

lemma inherited_line_is_not_registered:
  "(case runFrames pointFootprint initializeCanvas [inheritedLineFrame] of
      None \<Rightarrow> False
    | Some st \<Rightarrow> length (datasets st) = 2 \<and> map_of (name2idx st) ''constructor'' = None)"
  by code_simp

lemma dotted_polygon_is_skipped:
  "(case runFrames pointFootprint initializeCanvas [dottedPolygonFrame] of
      None \<Rightarrow> False
    | Some st \<Rightarrow> datasets st = [])"
  by code_simp

text \<open>
  C2. The claim asks that every registered name has a series at its index. After a
  frame with the polygon \<^verbatim>\<open>P\<close> and a frame with the line \<^verbatim>\<open>B\<close>, the registry maps
  \<^verbatim>\<open>B\<close> to index 1, and the sequence has one series, the stale polygon: the truncation
  that is to remove unused polygons has removed the series of \<^verbatim>\<open>B\<close>.
\<close>

theorem registered_name_without_series:
  "(case runFrames pointFootprint initializeCanvas [polygonFrame, lineFrame] of
      None \<Rightarrow> False
    | Some st \<Rightarrow>
        map_of (name2idx st) ''B'' = Some 1 \<and>
        length (datasets st) = 1 \<and>
        getProp (datasets st ! 0) ''label'' = VStr ''P'')"
  by code_simp

text \<open>
  C7. The claim asks that a frame applied twice leaves the series as one application
  does. After three polygons and then the lines \<^verbatim>\<open>W\<close> and \<^verbatim>\<open>X\<close>, the registry holds
  \<^verbatim>\<open>W\<close> and \<^verbatim>\<open>X\<close> at the indices 3 and 4 while the sequence has two series. The frame
  with the lines \<^verbatim>\<open>W, X, N1, N2\<close> comes back unchanged and leaves the series at index 3
  with the text \<^verbatim>\<open>X\<close>; applied again, it leaves it with the text \<^verbatim>\<open>W\<close>.
\<close>

theorem frame_applied_twice_differs:
  "(case runFrames pointFootprint initializeCanvas [threePolygons, twoLines] of
      None \<Rightarrow> False
    | Some st \<Rightarrow>
        (case updateChart pointFootprint st fourLines of
           None \<Rightarrow> False
         | Some (st1, frame1) \<Rightarrow>
             frame1 = fourLines \<and>
             getProp (datasets st1 ! 3) ''text'' = VStr ''X'' \<and>
             (case updateChart pointFootprint st1 frame1 of
                None \<Rightarrow> False
              | Some (st2, frame2) \<Rightarrow>
                  getProp (datasets st2 ! 3) ''text'' = VStr ''W'')))"
  by code_simp

text \<open>
  A style with a \<^verbatim>\<open>text\<close> key is honoured when the series is created and overwritten
  by the name when the same frame comes again.
\<close>

lemma caption_applied_twice_differs:
  "(case updateChart pointFootprint initializeCanvas captionFrame of
      None \<Rightarrow> False
    | Some (st1, frame1) \<Rightarrow>
        frame1 = captionFrame \<and>
        getProp (datasets st1 ! 0) ''text'' = VStr ''T'' \<and>
        (case updateChart pointFootprint st1 frame1 of
           None \<Rightarrow> False
         | Some (st2, frame2) \<Rightarrow> getProp (datasets st2 ! 0) ''text'' = VStr ''A''))"
  by code_simp

text \<open>
  C8. From the empty chart, the frame with the car \<^verbatim>\<open>ego\<close> gives two series: the
  arrow \<^verbatim>\<open>ego_arrow\<close> with the special marker \<^verbatim>\<open>car\<close>, and the bounding box, whose
  label the legend filter rejects and which has no special marker.
\<close>

theorem ego_frame_series:
  "(case updateChart calc initializeCanvas egoFrame of
      None \<Rightarrow> False
    | Some (st, frame) \<Rightarrow>
        length (datasets st) = 2 \<and>
        getProp (datasets st ! 0) ''label'' = VStr ''ego_arrow'' \<and>
        getProp (datasets st ! 0) ''specialMarker'' = VStr ''car'' \<and>
        getProp (datasets st ! 1) ''label'' = VStr ''skip_legend_ego_car_bounding_box'' \<and>
        legendFilter ''skip_legend_ego_car_bounding_box'' = False \<and>
        getProp (datasets st ! 1) ''specialMarker'' = VUndefined \<and>
        getProp (datasets st ! 1) ''data'' = VData (calc (Num 0) (Num 0) (Num 0)))"
  by code_simp




section \<open>Properties of graph construction\<close>

text \<open>
  C9, as the code has it. For a setting that is present: an error is logged and no graph
  is produced exactly when the line datasets, the properties or the options are
  missing; a graph is produced, and nothing logged, exactly when all three are
  present; and no exception is raised.
\<close>

theorem generateScatterGraph_result:
  "(generateScatterGraph (Some s) lineDatasets carDatasets polygonsDatasets
      = Inr ([ConsoleError ''Graph setting or data not found:'' (title s)], None))
     = (lineDatasets = None \<or> s_properties s = None \<or> s_options s = None) \<and>
   (\<exists>e. generateScatterGraph (Some s) lineDatasets carDatasets polygonsDatasets
      = Inr ([], Some e))
     = (lineDatasets \<noteq> None \<and> s_properties s \<noteq> None \<and> s_options s \<noteq> None) \<and>
   (\<forall>x. generateScatterGraph (Some s) lineDatasets carDatasets polygonsDatasets \<noteq> Inl x)"
  by (cases lineDatasets; cases "s_properties s"; cases "s_options s")
     (simp_all add: generateScatterGraph_def)

text \<open>
  The claim as stated fails for a complete setting without line datasets: the
  properties and the options are there, yet the error is logged and no graph produced.
\<close>

theorem generateScatterGraph_counterexample:
  "s_properties completeSetting \<noteq> None \<and> s_options completeSetting \<noteq> None \<and>
   generateScatterGraph (Some completeSetting) None None None
     = Inr ([ConsoleError ''Graph setting or data not found:'' ''Planning''], None)"
  by (simp add: generateScatterGraph_def completeSetting_def)

text \<open>Without a setting, reading its title throws.\<close>

lemma generateScatterGraph_no_setting:
  "generateScatterGraph None lineDatasets carDatasets polygonsDatasets = Inl TypeError"
  by (cases lineDatasets) (simp_all add: generateScatterGraph_def)

end
